theory Spec2Isabelle
  imports Complex_Main
begin

section \<open>The comparison card (CarbonComparisonCard.tsx)\<close>

text \<open>
  The card computes \<open>kgSum = sumCO2(data)\<close> and three products of it with fixed literals,
  and stores them in the \<open>comparisons\<close> object. JavaScript numbers are kept abstract: the
  definitions are over any type \<open>'n\<close> that has numerals, a product and the division that a
  decimal literal is read with, so nothing is assumed about rounding. The helper \<open>sumCO2\<close>
  is imported from \<open>./transformData\<close> and is a parameter of the card here. The \<open>icon\<close> of a
  comparison item is represented by the \<open>data-testid\<close> of the element.
\<close>

record 'n ComparisionItem =
  icon :: string
  total :: 'n
  textOne :: string
  textTwo :: string

record 'n Comparision =
  gas :: "'n ComparisionItem"
  miles :: "'n ComparisionItem"
  trees :: "'n ComparisionItem"

record 'n CardValues =
  kgSum :: 'n
  milesSum :: 'n
  gasSum :: 'n
  treesSum :: 'n
  comparisons :: "'n Comparision"

definition CarbonComparisonCard ::
  "('e list \<Rightarrow> 'n) \<Rightarrow> 'e list \<Rightarrow> ('n::{inverse,numeral,power}) CardValues" where
  "CarbonComparisonCard sumCO2 data =
    (let kgSum = sumCO2 data;
         milesSum = kgSum * 2.48138958;
         gasSum = kgSum * 0.1125239;
         treesSum = kgSum * 0.0165352;
         comparisons = \<lparr>
           gas = \<lparr> icon = ''gasIcon'', total = gasSum,
                   textOne = ''CO2 emissions from'',
                   textTwo = ''gallons of gasoline consumed'' \<rparr>,
           miles = \<lparr> icon = ''milesIcon'', total = milesSum,
                   textOne = ''greenhouse gas emissions from'',
                   textTwo = ''miles driven by an average passenger vehicle'' \<rparr>,
           trees = \<lparr> icon = ''treesIcon'', total = treesSum,
                   textOne = ''carbon sequestered by'',
                   textTwo = ''tree seedlings grown for 10 years'' \<rparr> \<rparr>
     in \<lparr> kgSum = kgSum, milesSum = milesSum, gasSum = gasSum, treesSum = treesSum,
          comparisons = comparisons \<rparr>)"

text \<open>
  Modelled from the spec: \<open>EstimationResult\<close> (\<open>../types\<close>) and \<open>sumCO2\<close>
  (\<open>./transformData\<close>) are not part of the source at hand. The spec calls the first "an
  external, opaque record type" from which "only a numeric CO2-equivalent aggregate is
  extracted", and the second "the external sum of per-result CO2 values".
\<close>

record 'n EstimationResult =
  co2e :: 'n

definition sumCO2 :: "('n::monoid_add) EstimationResult list \<Rightarrow> 'n" where
  "sumCO2 data = sum_list (map co2e data)"


section \<open>The HTTP router\<close>

subsection \<open>Thrown values\<close>

text \<open>
  What an external call throws, and what a \<open>catch (e)\<close> then receives, is any JavaScript
  value. An error object is an object with a \<open>constructor\<close> (a function object, which has
  an identity and a \<open>name\<close>) and a \<open>message\<close>. Two function objects are the same object
  when they agree on \<open>fn_id\<close>; distinct function objects may carry the same \<open>name\<close>.
  \<open>null\<close> and \<open>undefined\<close> have no properties: reading \<open>e.constructor\<close> of them makes the
  engine throw.
\<close>

record js_function =
  fn_id :: nat
  name :: string

record js_error =
  constructor :: js_function
  message :: string

datatype js_thrown =
    ErrorObject js_error
  | Null
  | Undefined

text \<open>
  The exception that the engine itself raises in the handlers is a \<open>TypeError\<close>: for a
  call of something that is not a function, for an object that cannot be converted to a
  string, and for a property read of \<open>null\<close> or \<open>undefined\<close>. In the handlers it is raised
  only where no \<open>try\<close> encloses it, so only the fact that it is raised is kept.
\<close>

datatype engine_error = TypeError

text \<open>
  Modelled from the spec: the three error classes are declared in
  \<open>@cloud-carbon-footprint/common\<close>, which is not part of the source at hand. The spec
  lists them as the validation error of the footprint request, the validation error of the
  recommendations request and the partial-data error. Each is a constructor function of its
  own, named as the handlers import it. For a class \<open>X\<close>, \<open>X.prototype.constructor\<close> is
  \<open>X\<close> itself, so \<open>X.prototype.constructor.name\<close> is \<open>name X\<close>.
\<close>

definition EstimationRequestValidationError :: js_function where
  "EstimationRequestValidationError =
     \<lparr> fn_id = 1, name = ''EstimationRequestValidationError'' \<rparr>"

definition PartialDataError :: js_function where
  "PartialDataError = \<lparr> fn_id = 2, name = ''PartialDataError'' \<rparr>"

definition RecommendationsRequestValidationError :: js_function where
  "RecommendationsRequestValidationError =
     \<lparr> fn_id = 3, name = ''RecommendationsRequestValidationError'' \<rparr>"

subsection \<open>Requests and raw requests\<close>

text \<open>
  \<open>req.query\<close> is an object with one property for each parameter of the query string,
  kept here as the list of its properties; \<open>req.query.p\<close> is \<open>map_of (query req) ''p''\<close>,
  which is \<open>None\<close> (\<open>undefined\<close>) for a parameter that is not given. A value is a string,
  an array or a nested object (the type \<open>ParsedQs\<close> of the query-string parser). The
  properties of a nested object are the keys written in brackets in the query string, and
  \<open>toString\<close> may be one of them, as in \<open>?start[toString]=x\<close>.

  \<open>toString\<close> is the method that the handlers call on a value:
  \<^item> a string is returned as it is;
  \<^item> an array converts each element to a string, the first failure being the failure of
    the whole, and joins the results by commas;
  \<^item> an object without a property \<open>toString\<close> of its own inherits the method of
    \<open>Object.prototype\<close>, which returns \<open>[object Object]\<close>;
  \<^item> an object with a property \<open>toString\<close> of its own holds a string, an array or an
    object there, none of which can be called: the engine throws a \<open>TypeError\<close>.
\<close>

datatype qs_value =
    QString string
  | QArray "qs_value list"
  | QObject "(string \<times> qs_value) list"

fun join :: "string \<Rightarrow> string list \<Rightarrow> string" where
  "join sep [] = []"
| "join sep [x] = x"
| "join sep (x # y # ys) = x @ sep @ join sep (y # ys)"

fun collect :: "('e + 'a) list \<Rightarrow> 'e + 'a list" where
  "collect [] = Inr []"
| "collect (Inl e # rs) = Inl e"
| "collect (Inr x # rs) = (case collect rs of Inl e \<Rightarrow> Inl e | Inr xs \<Rightarrow> Inr (x # xs))"

fun toString :: "qs_value \<Rightarrow> engine_error + string" where
  "toString (QString s) = Inr s"
| "toString (QArray xs) =
     (case collect (map toString xs) of Inl t \<Rightarrow> Inl t | Inr ss \<Rightarrow> Inr (join '','' ss))"
| "toString (QObject kvs) =
     (case map_of kvs ''toString'' of
        None \<Rightarrow> Inr ''[object Object]''
      | Some v \<Rightarrow> Inl TypeError)"

text \<open>The optional call \<open>v?.toString()\<close>: \<open>undefined\<close> when \<open>v\<close> is.\<close>

definition toString_opt :: "qs_value option \<Rightarrow> engine_error + string option" where
  "toString_opt v =
     (case v of
        None \<Rightarrow> Inr None
      | Some x \<Rightarrow> (case toString x of Inl t \<Rightarrow> Inl t | Inr s \<Rightarrow> Inr (Some s)))"

record request =
  query :: "(string \<times> qs_value) list"

record FootprintEstimatesRawRequest =
  startDate :: "string option"
  endDate :: "string option"
  ignoreCache :: "string option"
  groupBy :: "string option"
  limit :: "string option"
  skip :: "string option"
  cloudProviders :: "qs_value option"
  accounts :: "qs_value option"
  services :: "qs_value option"
  regions :: "qs_value option"
  tags :: "qs_value option"

record RecommendationsRawRequest =
  awsRecommendationTarget :: "string option"

text \<open>The truth value JavaScript gives a \<open>string | undefined\<close> in a condition.\<close>

definition truthy :: "string option \<Rightarrow> bool" where
  "truthy v = (case v of None \<Rightarrow> False | Some s \<Rightarrow> s \<noteq> [])"

subsection \<open>Responses and effects\<close>

text \<open>
  A handler is run for its effects. They are recorded in the order in which the handler
  performs them: the socket timeout, the calls of the logger, the calls of the two external
  validators with their argument, and the response that is written. \<open>res.json(x)\<close> writes
  \<open>x\<close> as JSON with the default status 200; \<open>res.status(n).send(s)\<close> writes the text \<open>s\<close>
  with status \<open>n\<close>.

  A run of a handler is the list of its effects together with the exception that leaves
  the handler, if any: the handlers are \<open>async\<close> functions, so that exception rejects the
  promise the handler returns, and the run has ended where it was raised.
\<close>

datatype 'j body = Json 'j | Text string

record 'j response =
  status :: nat
  body :: "'j body"

datatype 'j event =
    SocketSetTimeout nat
  | LoggerInfo string
  | LoggerWarn string
  | LoggerError string js_thrown
  | CallCreateValidFootprintRequest FootprintEstimatesRawRequest
  | CallCreateValidRecommendationsRequest RecommendationsRawRequest
  | Respond "'j response"

type_synonym 'j run = "'j event list \<times> engine_error option"

fun responses :: "'j event list \<Rightarrow> 'j response list" where
  "responses [] = []"
| "responses (Respond r # t) = r # responses t"
| "responses (_ # t) = responses t"

fun footprintValidations :: "'j event list \<Rightarrow> FootprintEstimatesRawRequest list" where
  "footprintValidations [] = []"
| "footprintValidations (CallCreateValidFootprintRequest r # t) = r # footprintValidations t"
| "footprintValidations (_ # t) = footprintValidations t"

fun recommendationsValidations :: "'j event list \<Rightarrow> RecommendationsRawRequest list" where
  "recommendationsValidations [] = []"
| "recommendationsValidations (CallCreateValidRecommendationsRequest r # t) =
     r # recommendationsValidations t"
| "recommendationsValidations (_ # t) = recommendationsValidations t"

subsection \<open>The external application package\<close>

text \<open>
  The validators and the methods of \<open>App\<close> come from \<open>@cloud-carbon-footprint/app\<close>. A
  call either returns (\<open>Inr\<close>) or throws, respectively rejects the awaited promise
  (\<open>Inl\<close>). The constructor of \<open>App\<close>, the logger and the methods of \<open>res\<close> do not
  throw. \<open>'fq\<close> and \<open>'rq\<close> are the validated requests and \<open>'j\<close> the values that are
  serialised as JSON.
\<close>

record ('fq, 'rq, 'j) app =
  createValidFootprintRequest :: "FootprintEstimatesRawRequest \<Rightarrow> js_thrown + 'fq"
  createValidRecommendationsRequest :: "RecommendationsRawRequest \<Rightarrow> js_thrown + 'rq"
  getCostAndEstimates :: "'fq \<Rightarrow> js_thrown + 'j"
  getEmissionsFactors :: "js_thrown + 'j"
  getRecommendations :: "'rq \<Rightarrow> js_thrown + 'j"

subsection \<open>FootprintApiMiddleware\<close>

text \<open>
  The object literal of \<open>rawRequest\<close>. Its properties are evaluated in the order in which
  they are written; the first \<open>toString\<close> that throws ends the evaluation. The last five
  properties are type casts and copy the value of the query.
\<close>

definition footprintRawRequest :: "request \<Rightarrow> engine_error + FootprintEstimatesRawRequest" where
  "footprintRawRequest req =
     (case toString_opt (map_of (query req) ''start'') of Inl t \<Rightarrow> Inl t | Inr start \<Rightarrow>
      case toString_opt (map_of (query req) ''end'') of Inl t \<Rightarrow> Inl t | Inr end' \<Rightarrow>
      case toString_opt (map_of (query req) ''ignoreCache'') of Inl t \<Rightarrow> Inl t | Inr ignoreCache' \<Rightarrow>
      case toString_opt (map_of (query req) ''groupBy'') of Inl t \<Rightarrow> Inl t | Inr groupBy' \<Rightarrow>
      case toString_opt (map_of (query req) ''limit'') of Inl t \<Rightarrow> Inl t | Inr limit' \<Rightarrow>
      case toString_opt (map_of (query req) ''skip'') of Inl t \<Rightarrow> Inl t | Inr skip' \<Rightarrow>
        Inr \<lparr> startDate = start,
              endDate = end',
              ignoreCache = ignoreCache',
              groupBy = groupBy',
              limit = limit',
              skip = skip',
              cloudProviders = map_of (query req) ''cloudProviders'',
              accounts = map_of (query req) ''accounts'',
              services = map_of (query req) ''services'',
              regions = map_of (query req) ''regions'',
              tags = map_of (query req) ''tags'' \<rparr>)"

text \<open>
  The body of the \<open>try\<close>: the events it performs and the value it throws, if any.
\<close>

definition FootprintApiMiddleware_try ::
  "('fq, 'rq, 'j) app \<Rightarrow> FootprintEstimatesRawRequest \<Rightarrow> 'j event list \<times> js_thrown option" where
  "FootprintApiMiddleware_try pkg rawRequest =
     (case createValidFootprintRequest pkg rawRequest of
        Inl e \<Rightarrow> ([CallCreateValidFootprintRequest rawRequest], Some e)
      | Inr estimationRequest \<Rightarrow>
          (case getCostAndEstimates pkg estimationRequest of
             Inl e \<Rightarrow> ([CallCreateValidFootprintRequest rawRequest], Some e)
           | Inr estimationResults \<Rightarrow>
               ([CallCreateValidFootprintRequest rawRequest,
                 Respond \<lparr> status = 200, body = Json estimationResults \<rparr>], None)))"

text \<open>
  The \<open>catch\<close> block logs the caught value and then reads \<open>e.constructor.name\<close>, which
  throws for \<open>null\<close> and \<open>undefined\<close>; nothing encloses the block, so that exception leaves
  the handler.
\<close>

definition FootprintApiMiddleware_catch :: "js_thrown \<Rightarrow> 'j run" where
  "FootprintApiMiddleware_catch e =
     apfst (Cons (LoggerError ''Unable to process footprint request.'' e))
       (case e of
          Null \<Rightarrow> ([], Some TypeError)
        | Undefined \<Rightarrow> ([], Some TypeError)
        | ErrorObject err \<Rightarrow>
            (if name (constructor err) = name EstimationRequestValidationError
             then ([Respond \<lparr> status = 400, body = Text (message err) \<rparr>], None)
             else if name (constructor err) = name PartialDataError
             then ([Respond \<lparr> status = 416, body = Text (message err) \<rparr>], None)
             else ([Respond \<lparr> status = 500, body = Text ''Internal Server Error'' \<rparr>], None)))"

definition FootprintApiMiddleware_try_catch ::
  "('fq, 'rq, 'j) app \<Rightarrow> FootprintEstimatesRawRequest \<Rightarrow> 'j run" where
  "FootprintApiMiddleware_try_catch pkg rawRequest =
     (case FootprintApiMiddleware_try pkg rawRequest of
        (t, None) \<Rightarrow> (t, None)
      | (t, Some e) \<Rightarrow> apfst (append t) (FootprintApiMiddleware_catch e))"

text \<open>
  The handler sets the timeout, builds \<open>rawRequest\<close> (which may throw, before the first
  message is logged and outside the \<open>try\<close>), logs the start, adopts the default of
  \<open>groupBy\<close> and runs the \<open>try\<close>/\<open>catch\<close>.
\<close>

definition FootprintApiMiddleware :: "('fq, 'rq, 'j) app \<Rightarrow> request \<Rightarrow> 'j run" where
  \<open>FootprintApiMiddleware pkg req =
     apfst (Cons (SocketSetTimeout (1000 * 60 * 10)))
       (case footprintRawRequest req of
          Inl t \<Rightarrow> ([], Some t)
        | Inr rawRequest \<Rightarrow>
            apfst (Cons (LoggerInfo ''Footprint API request started.''))
              (if \<not> truthy (groupBy rawRequest)
               then apfst (Cons (LoggerWarn
                        ''GroupBy parameter not specified, adopting default "day"''))
                      (FootprintApiMiddleware_try_catch pkg
                         (rawRequest\<lparr> groupBy := Some ''day'' \<rparr>))
               else FootprintApiMiddleware_try_catch pkg rawRequest))\<close>

text \<open>
  Two observations of a run of the handler: the value of \<open>rawRequest\<close> when the \<open>try\<close>
  is entered, if it is entered, and the value that the \<open>catch\<close> receives, if any.
\<close>

definition FootprintApiMiddleware_rawRequest ::
  "request \<Rightarrow> engine_error + FootprintEstimatesRawRequest" where
  "FootprintApiMiddleware_rawRequest req =
     (case footprintRawRequest req of
        Inl t \<Rightarrow> Inl t
      | Inr rawRequest \<Rightarrow>
          Inr (if \<not> truthy (groupBy rawRequest) then rawRequest\<lparr> groupBy := Some ''day'' \<rparr>
               else rawRequest))"

definition FootprintApiMiddleware_caught ::
  "('fq, 'rq, 'j) app \<Rightarrow> request \<Rightarrow> js_thrown option" where
  "FootprintApiMiddleware_caught pkg req =
     (case FootprintApiMiddleware_rawRequest req of
        Inl t \<Rightarrow> None
      | Inr rawRequest \<Rightarrow> snd (FootprintApiMiddleware_try pkg rawRequest))"

subsection \<open>EmissionsApiMiddleware\<close>

text \<open>The \<open>catch\<close> block of this handler logs the caught value and does not inspect it.\<close>

definition EmissionsApiMiddleware :: "('fq, 'rq, 'j) app \<Rightarrow> request \<Rightarrow> 'j run" where
  "EmissionsApiMiddleware pkg req =
     (LoggerInfo ''Regions emissions factors API request started'' #
      (case getEmissionsFactors pkg of
         Inr emissionsResults \<Rightarrow> [Respond \<lparr> status = 200, body = Json emissionsResults \<rparr>]
       | Inl e \<Rightarrow>
           [LoggerError ''Unable to process regions emissions factors request.'' e,
            Respond \<lparr> status = 500, body = Text ''Internal Server Error'' \<rparr>]),
      None)"

subsection \<open>RecommendationsApiMiddleware\<close>

definition recommendationsRawRequest :: "request \<Rightarrow> engine_error + RecommendationsRawRequest" where
  "recommendationsRawRequest req =
     (case toString_opt (map_of (query req) ''awsRecommendationTarget'') of
        Inl t \<Rightarrow> Inl t
      | Inr target \<Rightarrow> Inr \<lparr> awsRecommendationTarget = target \<rparr>)"

definition RecommendationsApiMiddleware_try ::
  "('fq, 'rq, 'j) app \<Rightarrow> RecommendationsRawRequest \<Rightarrow> 'j event list \<times> js_thrown option" where
  "RecommendationsApiMiddleware_try pkg rawRequest =
     (case createValidRecommendationsRequest pkg rawRequest of
        Inl e \<Rightarrow> ([CallCreateValidRecommendationsRequest rawRequest], Some e)
      | Inr estimationRequest \<Rightarrow>
          (case getRecommendations pkg estimationRequest of
             Inl e \<Rightarrow> ([CallCreateValidRecommendationsRequest rawRequest], Some e)
           | Inr recommendations \<Rightarrow>
               ([CallCreateValidRecommendationsRequest rawRequest,
                 Respond \<lparr> status = 200, body = Json recommendations \<rparr>], None)))"

definition RecommendationsApiMiddleware_catch :: "js_thrown \<Rightarrow> 'j run" where
  "RecommendationsApiMiddleware_catch e =
     apfst (Cons (LoggerError ''Unable to process recommendations request.'' e))
       (case e of
          Null \<Rightarrow> ([], Some TypeError)
        | Undefined \<Rightarrow> ([], Some TypeError)
        | ErrorObject err \<Rightarrow>
            (if name (constructor err) = name RecommendationsRequestValidationError
             then ([Respond \<lparr> status = 400, body = Text (message err) \<rparr>], None)
             else ([Respond \<lparr> status = 500, body = Text ''Internal Server Error'' \<rparr>], None)))"

text \<open>
  \<open>rawRequest\<close> is built first, before the start is logged and outside the \<open>try\<close>.
\<close>

definition RecommendationsApiMiddleware :: "('fq, 'rq, 'j) app \<Rightarrow> request \<Rightarrow> 'j run" where
  "RecommendationsApiMiddleware pkg req =
     (case recommendationsRawRequest req of
        Inl t \<Rightarrow> ([], Some t)
      | Inr rawRequest \<Rightarrow>
          apfst (Cons (LoggerInfo ''Recommendations API request started''))
            (case RecommendationsApiMiddleware_try pkg rawRequest of
               (t, None) \<Rightarrow> (t, None)
             | (t, Some e) \<Rightarrow> apfst (append t) (RecommendationsApiMiddleware_catch e)))"

definition RecommendationsApiMiddleware_caught ::
  "('fq, 'rq, 'j) app \<Rightarrow> request \<Rightarrow> js_thrown option" where
  "RecommendationsApiMiddleware_caught pkg req =
     (case recommendationsRawRequest req of
        Inl t \<Rightarrow> None
      | Inr rawRequest \<Rightarrow> snd (RecommendationsApiMiddleware_try pkg rawRequest))"

subsection \<open>createRouter\<close>

text \<open>
  \<open>createRouter\<close> stores the configuration process-wide (\<open>setConfig\<close>) and registers four
  GET routes. What the external package does may depend on the stored configuration, so the
  package is given as a function of it. A router is the list of its routes in the order of
  registration; a GET request is answered by the first route with its path, and by no route
  of this router when there is none. (The router of the framework also accepts a path in
  another letter case or with a slash at its end; only the paths as registered are
  considered here.)
\<close>

type_synonym 'j router = "(string \<times> (request \<Rightarrow> 'j run)) list"

definition createRouter :: "('c option \<Rightarrow> ('fq, 'rq, 'j) app) \<Rightarrow> 'c option \<Rightarrow> 'j router" where
  "createRouter package config =
     [(''/footprint'', FootprintApiMiddleware (package config)),
      (''/regions/emissions-factors'', EmissionsApiMiddleware (package config)),
      (''/recommendations'', RecommendationsApiMiddleware (package config)),
      (''/healthz'', \<lambda>req. ([Respond \<lparr> status = 200, body = Text ''OK'' \<rparr>], None))]"

definition handleGet :: "'j router \<Rightarrow> string \<Rightarrow> request \<Rightarrow> 'j run option" where
  "handleGet router path req = map_option (\<lambda>handler. handler req) (map_of router path)"

subsection \<open>Sample collaborators\<close>

text \<open>
  Two instances of the external package, for running the handlers on concrete requests:
  one in which every call throws the given value, and one in which the validators accept
  every raw request and every method of \<open>App\<close> returns the given value.
\<close>

definition app_throwing :: "js_thrown \<Rightarrow> (unit, unit, 'j) app" where
  "app_throwing e =
     \<lparr> createValidFootprintRequest = (\<lambda>rawRequest. Inl e),
       createValidRecommendationsRequest = (\<lambda>rawRequest. Inl e),
       getCostAndEstimates = (\<lambda>estimationRequest. Inl e),
       getEmissionsFactors = Inl e,
       getRecommendations = (\<lambda>estimationRequest. Inl e) \<rparr>"

definition app_returning ::
  "'j \<Rightarrow> (FootprintEstimatesRawRequest, RecommendationsRawRequest, 'j) app" where
  "app_returning j =
     \<lparr> createValidFootprintRequest = Inr,
       createValidRecommendationsRequest = Inr,
       getCostAndEstimates = (\<lambda>estimationRequest. Inr j),
       getEmissionsFactors = Inr j,
       getRecommendations = (\<lambda>estimationRequest. Inr j) \<rparr>"


section \<open>Properties of the comparison card\<close>

text \<open>
  C5. For every collection of estimation results, whatever the external \<open>sumCO2\<close> computes
  from it, \<open>kgSum\<close> is that sum and \<open>treesSum = kgSum * 0.0165352\<close>,
  \<open>gasSum = kgSum * 0.1125239\<close> and \<open>milesSum = kgSum * 2.48138958\<close>; the same three values
  are the totals stored in \<open>comparisons\<close>.
\<close>

theorem card_derived_values:
  "kgSum (CarbonComparisonCard f data) = f data \<and>
   treesSum (CarbonComparisonCard f data) = kgSum (CarbonComparisonCard f data) * 0.0165352 \<and>
   gasSum (CarbonComparisonCard f data) = kgSum (CarbonComparisonCard f data) * 0.1125239 \<and>
   milesSum (CarbonComparisonCard f data) = kgSum (CarbonComparisonCard f data) * 2.48138958 \<and>
   total (trees (comparisons (CarbonComparisonCard f data))) = f data * 0.0165352 \<and>
   total (gas (comparisons (CarbonComparisonCard f data))) = f data * 0.1125239 \<and>
   total (miles (comparisons (CarbonComparisonCard f data))) = f data * 2.48138958"
  by (simp add: CarbonComparisonCard_def Let_def)

text \<open>
  C6. The card is a total function of its input. For the empty list, with \<open>sumCO2\<close> the sum
  of the per-result CO2 values, \<open>kgSum\<close> is 0 and so are \<open>milesSum\<close>, \<open>gasSum\<close> and
  \<open>treesSum\<close>, also as stored in \<open>comparisons\<close>.
\<close>

theorem card_empty_input:
  "kgSum (CarbonComparisonCard sumCO2 ([] :: ('n::field) EstimationResult list)) = 0 \<and>
   milesSum (CarbonComparisonCard sumCO2 ([] :: 'n EstimationResult list)) = 0 \<and>
   gasSum (CarbonComparisonCard sumCO2 ([] :: 'n EstimationResult list)) = 0 \<and>
   treesSum (CarbonComparisonCard sumCO2 ([] :: 'n EstimationResult list)) = 0 \<and>
   total (miles (comparisons (CarbonComparisonCard sumCO2 ([] :: 'n EstimationResult list)))) = 0 \<and>
   total (gas (comparisons (CarbonComparisonCard sumCO2 ([] :: 'n EstimationResult list)))) = 0 \<and>
   total (trees (comparisons (CarbonComparisonCard sumCO2 ([] :: 'n EstimationResult list)))) = 0"
  by (simp add: CarbonComparisonCard_def Let_def sumCO2_def)



section \<open>Properties of the router\<close>

lemmas footprint_defs =
  FootprintApiMiddleware_def FootprintApiMiddleware_try_catch_def
  FootprintApiMiddleware_try_def FootprintApiMiddleware_catch_def
  FootprintApiMiddleware_caught_def FootprintApiMiddleware_rawRequest_def

lemmas recommendations_defs =
  RecommendationsApiMiddleware_def RecommendationsApiMiddleware_try_def
  RecommendationsApiMiddleware_catch_def RecommendationsApiMiddleware_caught_def

lemmas class_defs =
  EstimationRequestValidationError_def PartialDataError_def
  RecommendationsRequestValidationError_def

lemma engine_error_is_TypeError: "(t :: engine_error) = TypeError"
  by (cases t) simp

subsection \<open>The runs of the handlers\<close>


lemma footprint_run_when_rawRequest_throws:
  "footprintRawRequest req = Inl t \<Longrightarrow>
   FootprintApiMiddleware pkg req = ([SocketSetTimeout 600000], Some TypeError)"
  by (simp add: FootprintApiMiddleware_def engine_error_is_TypeError [of t])

lemma footprint_run_when_rawRequest_built:
  \<open>footprintRawRequest req = Inr rawRequest \<Longrightarrow>
   FootprintApiMiddleware pkg req =
     apfst (append
        ([SocketSetTimeout 600000, LoggerInfo ''Footprint API request started.''] @
         (if truthy (groupBy rawRequest) then []
          else [LoggerWarn ''GroupBy parameter not specified, adopting default "day"''])))
       (FootprintApiMiddleware_try_catch pkg
          (if truthy (groupBy rawRequest) then rawRequest
           else rawRequest\<lparr> groupBy := Some ''day'' \<rparr>))\<close>
  by (cases "FootprintApiMiddleware_try_catch pkg rawRequest";
      cases "FootprintApiMiddleware_try_catch pkg (rawRequest\<lparr> groupBy := Some ''day'' \<rparr>)")
     (simp add: FootprintApiMiddleware_def)

text \<open>
  In each handler the observed caught value is the value that the handler logs as the
  error.
\<close>

lemma footprint_caught_is_logged:
  "(LoggerError ''Unable to process footprint request.'' v
      \<in> set (fst (FootprintApiMiddleware pkg req))) =
   (FootprintApiMiddleware_caught pkg req = Some v)"
  by (auto simp add: footprint_defs split: sum.splits if_splits js_thrown.splits)

lemma emissions_caught_is_logged:
  "(LoggerError ''Unable to process regions emissions factors request.'' v
      \<in> set (fst (EmissionsApiMiddleware pkg req))) =
   (getEmissionsFactors pkg = Inl v)"
  by (auto simp add: EmissionsApiMiddleware_def split: sum.splits)

lemma recommendations_caught_is_logged:
  "(LoggerError ''Unable to process recommendations request.'' v
      \<in> set (fst (RecommendationsApiMiddleware pkg req))) =
   (RecommendationsApiMiddleware_caught pkg req = Some v)"
  by (auto simp add: recommendations_defs split: sum.splits if_splits js_thrown.splits)






subsection \<open>The mapping of errors to responses\<close>

text \<open>
  C1. In the footprint handler, a caught error of the footprint validation-error kind (its
  constructor is named as \<open>EstimationRequestValidationError\<close> is) is answered with status
  400 and, as the body, exactly the message of the error; nothing leaves the handler.
\<close>

theorem footprint_validation_error_400:
  assumes "FootprintApiMiddleware_caught pkg req = Some (ErrorObject e)"
      and "name (constructor e) = name EstimationRequestValidationError"
  shows "responses (fst (FootprintApiMiddleware pkg req)) =
           [\<lparr> status = 400, body = Text (message e) \<rparr>] \<and>
         snd (FootprintApiMiddleware pkg req) = None"
  using assms
  by (cases "footprintRawRequest req")
     (auto simp add: footprint_defs split: sum.splits if_splits)

theorem footprint_validation_error_400_witness:
  "FootprintApiMiddleware_caught (app_throwing (ErrorObject \<lparr> constructor = EstimationRequestValidationError, message = ''Start date is not in a valid format'' \<rparr>) :: (unit, unit, unit) app)
     \<lparr> query = [(''start'', QString ''yesterday''), (''end'', QString ''2021-02-01'')] \<rparr> =
     Some (ErrorObject \<lparr> constructor = EstimationRequestValidationError, message = ''Start date is not in a valid format'' \<rparr>) \<and>
   name (constructor \<lparr> constructor = EstimationRequestValidationError, message = ''Start date is not in a valid format'' \<rparr>) =
     name EstimationRequestValidationError \<and>
   responses (fst (FootprintApiMiddleware (app_throwing (ErrorObject \<lparr> constructor = EstimationRequestValidationError, message = ''Start date is not in a valid format'' \<rparr>) :: (unit, unit, unit) app)
     \<lparr> query = [(''start'', QString ''yesterday''), (''end'', QString ''2021-02-01'')] \<rparr>)) =
     [\<lparr> status = 400, body = Text ''Start date is not in a valid format'' \<rparr>] \<and>
   snd (FootprintApiMiddleware (app_throwing (ErrorObject \<lparr> constructor = EstimationRequestValidationError, message = ''Start date is not in a valid format'' \<rparr>) :: (unit, unit, unit) app)
     \<lparr> query = [(''start'', QString ''yesterday''), (''end'', QString ''2021-02-01'')] \<rparr>) = None"
proof -
  let ?e = "\<lparr> constructor = EstimationRequestValidationError, message = ''Start date is not in a valid format'' \<rparr>"
  let ?pkg = "(app_throwing (ErrorObject ?e) :: (unit, unit, unit) app)"
  let ?req = "\<lparr> query = [(''start'', QString ''yesterday''), (''end'', QString ''2021-02-01'')] \<rparr>"
  have caught: "FootprintApiMiddleware_caught ?pkg ?req = Some (ErrorObject ?e)"
    by (simp add: FootprintApiMiddleware_caught_def FootprintApiMiddleware_rawRequest_def
        FootprintApiMiddleware_try_def footprintRawRequest_def recommendationsRawRequest_def toString_opt_def truthy_def
        app_throwing_def app_returning_def)
  have kind: "name (constructor ?e) = name EstimationRequestValidationError"
    by simp
  from footprint_validation_error_400 [OF caught kind] caught kind
  show ?thesis by simp
qed

text \<open>
  C2. In the footprint handler, a caught error of the partial-data kind (its constructor is
  named as \<open>PartialDataError\<close> is) is answered with status 416 and the message of the error
  as the body; nothing leaves the handler.
\<close>

theorem footprint_partial_data_error_416:
  assumes "FootprintApiMiddleware_caught pkg req = Some (ErrorObject e)"
      and "name (constructor e) = name PartialDataError"
  shows "responses (fst (FootprintApiMiddleware pkg req)) =
           [\<lparr> status = 416, body = Text (message e) \<rparr>] \<and>
         snd (FootprintApiMiddleware pkg req) = None"
  using assms
  by (cases "footprintRawRequest req")
     (auto simp add: footprint_defs class_defs split: sum.splits if_splits)

theorem footprint_partial_data_error_416_witness:
  "FootprintApiMiddleware_caught (app_throwing (ErrorObject \<lparr> constructor = PartialDataError, message = ''Partial Data Error! Please try again.'' \<rparr>) :: (unit, unit, unit) app)
     \<lparr> query = [(''start'', QString ''2021-01-01''), (''end'', QString ''2021-02-01''), (''groupBy'', QString ''month'')] \<rparr> =
     Some (ErrorObject \<lparr> constructor = PartialDataError, message = ''Partial Data Error! Please try again.'' \<rparr>) \<and>
   name (constructor \<lparr> constructor = PartialDataError, message = ''Partial Data Error! Please try again.'' \<rparr>) =
     name PartialDataError \<and>
   responses (fst (FootprintApiMiddleware (app_throwing (ErrorObject \<lparr> constructor = PartialDataError, message = ''Partial Data Error! Please try again.'' \<rparr>) :: (unit, unit, unit) app)
     \<lparr> query = [(''start'', QString ''2021-01-01''), (''end'', QString ''2021-02-01''), (''groupBy'', QString ''month'')] \<rparr>)) =
     [\<lparr> status = 416, body = Text ''Partial Data Error! Please try again.'' \<rparr>] \<and>
   snd (FootprintApiMiddleware (app_throwing (ErrorObject \<lparr> constructor = PartialDataError, message = ''Partial Data Error! Please try again.'' \<rparr>) :: (unit, unit, unit) app)
     \<lparr> query = [(''start'', QString ''2021-01-01''), (''end'', QString ''2021-02-01''), (''groupBy'', QString ''month'')] \<rparr>) = None"
proof -
  let ?e = "\<lparr> constructor = PartialDataError, message = ''Partial Data Error! Please try again.'' \<rparr>"
  let ?pkg = "(app_throwing (ErrorObject ?e) :: (unit, unit, unit) app)"
  let ?req = "\<lparr> query = [(''start'', QString ''2021-01-01''), (''end'', QString ''2021-02-01''), (''groupBy'', QString ''month'')] \<rparr>"
  have caught: "FootprintApiMiddleware_caught ?pkg ?req = Some (ErrorObject ?e)"
    by (simp add: FootprintApiMiddleware_caught_def FootprintApiMiddleware_rawRequest_def
        FootprintApiMiddleware_try_def footprintRawRequest_def recommendationsRawRequest_def toString_opt_def truthy_def
        app_throwing_def app_returning_def)
  have kind: "name (constructor ?e) = name PartialDataError"
    by simp
  from footprint_partial_data_error_416 [OF caught kind] caught kind
  show ?thesis by simp
qed




text \<open>
  C10. In the recommendations handler a caught error of the partial-data kind is answered
  with status 500 and the generic body, not with 416. Only an error of the recommendations
  validation-error kind is answered with 400 and its message; an error of any other kind is
  answered with the generic 500.
\<close>

theorem recommendations_partial_data_is_500:
  assumes "RecommendationsApiMiddleware_caught pkg req = Some (ErrorObject e)"
  shows "(name (constructor e) = name PartialDataError \<longrightarrow>
            responses (fst (RecommendationsApiMiddleware pkg req)) =
              [\<lparr> status = 500, body = Text ''Internal Server Error'' \<rparr>]) \<and>
         (name (constructor e) = name RecommendationsRequestValidationError \<longrightarrow>
            responses (fst (RecommendationsApiMiddleware pkg req)) =
              [\<lparr> status = 400, body = Text (message e) \<rparr>]) \<and>
         (name (constructor e) \<noteq> name RecommendationsRequestValidationError \<longrightarrow>
            responses (fst (RecommendationsApiMiddleware pkg req)) =
              [\<lparr> status = 500, body = Text ''Internal Server Error'' \<rparr>]) \<and>
         snd (RecommendationsApiMiddleware pkg req) = None"
  using assms
  by (cases "recommendationsRawRequest req")
     (auto simp add: recommendations_defs class_defs split: sum.splits if_splits)

theorem recommendations_partial_data_is_500_witness:
  "RecommendationsApiMiddleware_caught (app_throwing (ErrorObject \<lparr> constructor = PartialDataError, message = ''Partial data'' \<rparr>) :: (unit, unit, unit) app)
     \<lparr> query = [(''awsRecommendationTarget'', QString ''SAME_INSTANCE_FAMILY'')] \<rparr> =
     Some (ErrorObject \<lparr> constructor = PartialDataError, message = ''Partial data'' \<rparr>) \<and>
   name (constructor \<lparr> constructor = PartialDataError, message = ''Partial data'' \<rparr>) =
     name PartialDataError \<and>
   name (constructor \<lparr> constructor = PartialDataError, message = ''Partial data'' \<rparr>) \<noteq>
     name RecommendationsRequestValidationError \<and>
   responses (fst (RecommendationsApiMiddleware (app_throwing (ErrorObject \<lparr> constructor = PartialDataError, message = ''Partial data'' \<rparr>) :: (unit, unit, unit) app)
     \<lparr> query = [(''awsRecommendationTarget'', QString ''SAME_INSTANCE_FAMILY'')] \<rparr>)) =
     [\<lparr> status = 500, body = Text ''Internal Server Error'' \<rparr>] \<and>
   snd (RecommendationsApiMiddleware (app_throwing (ErrorObject \<lparr> constructor = PartialDataError, message = ''Partial data'' \<rparr>) :: (unit, unit, unit) app)
     \<lparr> query = [(''awsRecommendationTarget'', QString ''SAME_INSTANCE_FAMILY'')] \<rparr>) = None \<and>
   RecommendationsApiMiddleware_caught (app_throwing (ErrorObject \<lparr> constructor = RecommendationsRequestValidationError, message = ''AWS Recommendation Target is not valid'' \<rparr>) :: (unit, unit, unit) app)
     \<lparr> query = [(''awsRecommendationTarget'', QString ''nowhere'')] \<rparr> =
     Some (ErrorObject \<lparr> constructor = RecommendationsRequestValidationError, message = ''AWS Recommendation Target is not valid'' \<rparr>) \<and>
   name (constructor \<lparr> constructor = RecommendationsRequestValidationError, message = ''AWS Recommendation Target is not valid'' \<rparr>) =
     name RecommendationsRequestValidationError \<and>
   responses (fst (RecommendationsApiMiddleware (app_throwing (ErrorObject \<lparr> constructor = RecommendationsRequestValidationError, message = ''AWS Recommendation Target is not valid'' \<rparr>) :: (unit, unit, unit) app)
     \<lparr> query = [(''awsRecommendationTarget'', QString ''nowhere'')] \<rparr>)) =
     [\<lparr> status = 400, body = Text ''AWS Recommendation Target is not valid'' \<rparr>] \<and>
   snd (RecommendationsApiMiddleware (app_throwing (ErrorObject \<lparr> constructor = RecommendationsRequestValidationError, message = ''AWS Recommendation Target is not valid'' \<rparr>) :: (unit, unit, unit) app)
     \<lparr> query = [(''awsRecommendationTarget'', QString ''nowhere'')] \<rparr>) = None"
proof -
  let ?p = "\<lparr> constructor = PartialDataError, message = ''Partial data'' \<rparr>"
  let ?v = "\<lparr> constructor = RecommendationsRequestValidationError, message = ''AWS Recommendation Target is not valid'' \<rparr>"
  let ?req = "\<lparr> query = [(''awsRecommendationTarget'', QString ''SAME_INSTANCE_FAMILY'')] \<rparr>"
  let ?req' = "\<lparr> query = [(''awsRecommendationTarget'', QString ''nowhere'')] \<rparr>"
  have cp: "RecommendationsApiMiddleware_caught (app_throwing (ErrorObject ?p) :: (unit, unit, unit) app) ?req =
              Some (ErrorObject ?p)"
    by (simp add: RecommendationsApiMiddleware_caught_def RecommendationsApiMiddleware_try_def
        footprintRawRequest_def recommendationsRawRequest_def toString_opt_def truthy_def
        app_throwing_def app_returning_def)
  have cv: "RecommendationsApiMiddleware_caught (app_throwing (ErrorObject ?v) :: (unit, unit, unit) app) ?req' =
              Some (ErrorObject ?v)"
    by (simp add: RecommendationsApiMiddleware_caught_def RecommendationsApiMiddleware_try_def
        footprintRawRequest_def recommendationsRawRequest_def toString_opt_def truthy_def
        app_throwing_def app_returning_def)
  have np: "name (constructor ?p) = name PartialDataError"
    by simp
  have np': "name (constructor ?p) \<noteq> name RecommendationsRequestValidationError"
    by (simp add: class_defs)
  have nv: "name (constructor ?v) = name RecommendationsRequestValidationError"
    by simp
  from recommendations_partial_data_is_500 [OF cp] recommendations_partial_data_is_500 [OF cv]
    cp cv np np' nv
  show ?thesis by simp
qed

text \<open>
  C8. The kind of a caught error object is decided by the name of its constructor, compared
  with the names of the known error classes. The footprint handler answers the name of
  \<open>EstimationRequestValidationError\<close> with 400 and the message, otherwise the name of
  \<open>PartialDataError\<close> with 416 and the message, and every other name with the generic 500.
  The recommendations handler answers the name of \<open>RecommendationsRequestValidationError\<close>
  with 400 and the message and every other name with the generic 500. The emissions handler
  answers every error with the generic 500. So an error whose constructor bears none of the
  three names is answered with the generic 500 by every handler, and the identity of the
  constructor plays no part.
\<close>

theorem error_kind_by_constructor_name:
  "(FootprintApiMiddleware_caught pkg req = Some (ErrorObject e) \<longrightarrow>
      responses (fst (FootprintApiMiddleware pkg req)) =
        [if name (constructor e) = name EstimationRequestValidationError
         then \<lparr> status = 400, body = Text (message e) \<rparr>
         else if name (constructor e) = name PartialDataError
         then \<lparr> status = 416, body = Text (message e) \<rparr>
         else \<lparr> status = 500, body = Text ''Internal Server Error'' \<rparr>]) \<and>
   (RecommendationsApiMiddleware_caught pkg req = Some (ErrorObject e) \<longrightarrow>
      responses (fst (RecommendationsApiMiddleware pkg req)) =
        [if name (constructor e) = name RecommendationsRequestValidationError
         then \<lparr> status = 400, body = Text (message e) \<rparr>
         else \<lparr> status = 500, body = Text ''Internal Server Error'' \<rparr>]) \<and>
   (getEmissionsFactors pkg = Inl (ErrorObject e) \<longrightarrow>
      responses (fst (EmissionsApiMiddleware pkg req)) =
        [\<lparr> status = 500, body = Text ''Internal Server Error'' \<rparr>])"
proof (intro conjI impI)
  assume "FootprintApiMiddleware_caught pkg req = Some (ErrorObject e)"
  then show "responses (fst (FootprintApiMiddleware pkg req)) =
        [if name (constructor e) = name EstimationRequestValidationError
         then \<lparr> status = 400, body = Text (message e) \<rparr>
         else if name (constructor e) = name PartialDataError
         then \<lparr> status = 416, body = Text (message e) \<rparr>
         else \<lparr> status = 500, body = Text ''Internal Server Error'' \<rparr>]"
    by (cases "footprintRawRequest req")
       (auto simp add: footprint_defs split: sum.splits if_splits)
next
  assume "RecommendationsApiMiddleware_caught pkg req = Some (ErrorObject e)"
  then show "responses (fst (RecommendationsApiMiddleware pkg req)) =
        [if name (constructor e) = name RecommendationsRequestValidationError
         then \<lparr> status = 400, body = Text (message e) \<rparr>
         else \<lparr> status = 500, body = Text ''Internal Server Error'' \<rparr>]"
    by (cases "recommendationsRawRequest req")
       (auto simp add: recommendations_defs split: sum.splits if_splits)
next
  assume "getEmissionsFactors pkg = Inl (ErrorObject e)"
  then show "responses (fst (EmissionsApiMiddleware pkg req)) =
        [\<lparr> status = 500, body = Text ''Internal Server Error'' \<rparr>]"
    by (simp add: EmissionsApiMiddleware_def)
qed

theorem error_kind_by_constructor_name_witness:
  "constructor \<lparr> constructor = \<lparr> fn_id = 7, name = ''EstimationRequestValidationError'' \<rparr>, message = ''Start date is not in a valid format'' \<rparr> \<noteq>
     EstimationRequestValidationError \<and>
   constructor \<lparr> constructor = \<lparr> fn_id = 8, name = ''PartialDataError'' \<rparr>, message = ''Partial data'' \<rparr> \<noteq>
     PartialDataError \<and>
   constructor \<lparr> constructor = \<lparr> fn_id = 9, name = ''RecommendationsRequestValidationError'' \<rparr>, message = ''Target is not valid'' \<rparr> \<noteq>
     RecommendationsRequestValidationError \<and>
   FootprintApiMiddleware_caught (app_throwing (ErrorObject \<lparr> constructor = \<lparr> fn_id = 7, name = ''EstimationRequestValidationError'' \<rparr>, message = ''Start date is not in a valid format'' \<rparr>) :: (unit, unit, unit) app)
     \<lparr> query = [(''start'', QString ''yesterday''), (''awsRecommendationTarget'', QString ''nowhere'')] \<rparr> =
     Some (ErrorObject \<lparr> constructor = \<lparr> fn_id = 7, name = ''EstimationRequestValidationError'' \<rparr>, message = ''Start date is not in a valid format'' \<rparr>) \<and>
   RecommendationsApiMiddleware_caught (app_throwing (ErrorObject \<lparr> constructor = \<lparr> fn_id = 7, name = ''EstimationRequestValidationError'' \<rparr>, message = ''Start date is not in a valid format'' \<rparr>) :: (unit, unit, unit) app)
     \<lparr> query = [(''start'', QString ''yesterday''), (''awsRecommendationTarget'', QString ''nowhere'')] \<rparr> =
     Some (ErrorObject \<lparr> constructor = \<lparr> fn_id = 7, name = ''EstimationRequestValidationError'' \<rparr>, message = ''Start date is not in a valid format'' \<rparr>) \<and>
   getEmissionsFactors (app_throwing (ErrorObject \<lparr> constructor = \<lparr> fn_id = 7, name = ''EstimationRequestValidationError'' \<rparr>, message = ''Start date is not in a valid format'' \<rparr>) :: (unit, unit, unit) app) =
     Inl (ErrorObject \<lparr> constructor = \<lparr> fn_id = 7, name = ''EstimationRequestValidationError'' \<rparr>, message = ''Start date is not in a valid format'' \<rparr>) \<and>
   responses (fst (FootprintApiMiddleware (app_throwing (ErrorObject \<lparr> constructor = \<lparr> fn_id = 7, name = ''EstimationRequestValidationError'' \<rparr>, message = ''Start date is not in a valid format'' \<rparr>) :: (unit, unit, unit) app)
     \<lparr> query = [(''start'', QString ''yesterday''), (''awsRecommendationTarget'', QString ''nowhere'')] \<rparr>)) =
     [\<lparr> status = 400, body = Text ''Start date is not in a valid format'' \<rparr>] \<and>
   responses (fst (RecommendationsApiMiddleware (app_throwing (ErrorObject \<lparr> constructor = \<lparr> fn_id = 7, name = ''EstimationRequestValidationError'' \<rparr>, message = ''Start date is not in a valid format'' \<rparr>) :: (unit, unit, unit) app)
     \<lparr> query = [(''start'', QString ''yesterday''), (''awsRecommendationTarget'', QString ''nowhere'')] \<rparr>)) =
     [\<lparr> status = 500, body = Text ''Internal Server Error'' \<rparr>] \<and>
   responses (fst (EmissionsApiMiddleware (app_throwing (ErrorObject \<lparr> constructor = \<lparr> fn_id = 7, name = ''EstimationRequestValidationError'' \<rparr>, message = ''Start date is not in a valid format'' \<rparr>) :: (unit, unit, unit) app)
     \<lparr> query = [(''start'', QString ''yesterday''), (''awsRecommendationTarget'', QString ''nowhere'')] \<rparr>)) =
     [\<lparr> status = 500, body = Text ''Internal Server Error'' \<rparr>] \<and>
   FootprintApiMiddleware_caught (app_throwing (ErrorObject \<lparr> constructor = \<lparr> fn_id = 8, name = ''PartialDataError'' \<rparr>, message = ''Partial data'' \<rparr>) :: (unit, unit, unit) app)
     \<lparr> query = [(''start'', QString ''yesterday''), (''awsRecommendationTarget'', QString ''nowhere'')] \<rparr> =
     Some (ErrorObject \<lparr> constructor = \<lparr> fn_id = 8, name = ''PartialDataError'' \<rparr>, message = ''Partial data'' \<rparr>) \<and>
   RecommendationsApiMiddleware_caught (app_throwing (ErrorObject \<lparr> constructor = \<lparr> fn_id = 8, name = ''PartialDataError'' \<rparr>, message = ''Partial data'' \<rparr>) :: (unit, unit, unit) app)
     \<lparr> query = [(''start'', QString ''yesterday''), (''awsRecommendationTarget'', QString ''nowhere'')] \<rparr> =
     Some (ErrorObject \<lparr> constructor = \<lparr> fn_id = 8, name = ''PartialDataError'' \<rparr>, message = ''Partial data'' \<rparr>) \<and>
   getEmissionsFactors (app_throwing (ErrorObject \<lparr> constructor = \<lparr> fn_id = 8, name = ''PartialDataError'' \<rparr>, message = ''Partial data'' \<rparr>) :: (unit, unit, unit) app) =
     Inl (ErrorObject \<lparr> constructor = \<lparr> fn_id = 8, name = ''PartialDataError'' \<rparr>, message = ''Partial data'' \<rparr>) \<and>
   responses (fst (FootprintApiMiddleware (app_throwing (ErrorObject \<lparr> constructor = \<lparr> fn_id = 8, name = ''PartialDataError'' \<rparr>, message = ''Partial data'' \<rparr>) :: (unit, unit, unit) app)
     \<lparr> query = [(''start'', QString ''yesterday''), (''awsRecommendationTarget'', QString ''nowhere'')] \<rparr>)) =
     [\<lparr> status = 416, body = Text ''Partial data'' \<rparr>] \<and>
   responses (fst (RecommendationsApiMiddleware (app_throwing (ErrorObject \<lparr> constructor = \<lparr> fn_id = 8, name = ''PartialDataError'' \<rparr>, message = ''Partial data'' \<rparr>) :: (unit, unit, unit) app)
     \<lparr> query = [(''start'', QString ''yesterday''), (''awsRecommendationTarget'', QString ''nowhere'')] \<rparr>)) =
     [\<lparr> status = 500, body = Text ''Internal Server Error'' \<rparr>] \<and>
   responses (fst (EmissionsApiMiddleware (app_throwing (ErrorObject \<lparr> constructor = \<lparr> fn_id = 8, name = ''PartialDataError'' \<rparr>, message = ''Partial data'' \<rparr>) :: (unit, unit, unit) app)
     \<lparr> query = [(''start'', QString ''yesterday''), (''awsRecommendationTarget'', QString ''nowhere'')] \<rparr>)) =
     [\<lparr> status = 500, body = Text ''Internal Server Error'' \<rparr>] \<and>
   FootprintApiMiddleware_caught (app_throwing (ErrorObject \<lparr> constructor = \<lparr> fn_id = 9, name = ''RecommendationsRequestValidationError'' \<rparr>, message = ''Target is not valid'' \<rparr>) :: (unit, unit, unit) app)
     \<lparr> query = [(''start'', QString ''yesterday''), (''awsRecommendationTarget'', QString ''nowhere'')] \<rparr> =
     Some (ErrorObject \<lparr> constructor = \<lparr> fn_id = 9, name = ''RecommendationsRequestValidationError'' \<rparr>, message = ''Target is not valid'' \<rparr>) \<and>
   RecommendationsApiMiddleware_caught (app_throwing (ErrorObject \<lparr> constructor = \<lparr> fn_id = 9, name = ''RecommendationsRequestValidationError'' \<rparr>, message = ''Target is not valid'' \<rparr>) :: (unit, unit, unit) app)
     \<lparr> query = [(''start'', QString ''yesterday''), (''awsRecommendationTarget'', QString ''nowhere'')] \<rparr> =
     Some (ErrorObject \<lparr> constructor = \<lparr> fn_id = 9, name = ''RecommendationsRequestValidationError'' \<rparr>, message = ''Target is not valid'' \<rparr>) \<and>
   getEmissionsFactors (app_throwing (ErrorObject \<lparr> constructor = \<lparr> fn_id = 9, name = ''RecommendationsRequestValidationError'' \<rparr>, message = ''Target is not valid'' \<rparr>) :: (unit, unit, unit) app) =
     Inl (ErrorObject \<lparr> constructor = \<lparr> fn_id = 9, name = ''RecommendationsRequestValidationError'' \<rparr>, message = ''Target is not valid'' \<rparr>) \<and>
   responses (fst (FootprintApiMiddleware (app_throwing (ErrorObject \<lparr> constructor = \<lparr> fn_id = 9, name = ''RecommendationsRequestValidationError'' \<rparr>, message = ''Target is not valid'' \<rparr>) :: (unit, unit, unit) app)
     \<lparr> query = [(''start'', QString ''yesterday''), (''awsRecommendationTarget'', QString ''nowhere'')] \<rparr>)) =
     [\<lparr> status = 500, body = Text ''Internal Server Error'' \<rparr>] \<and>
   responses (fst (RecommendationsApiMiddleware (app_throwing (ErrorObject \<lparr> constructor = \<lparr> fn_id = 9, name = ''RecommendationsRequestValidationError'' \<rparr>, message = ''Target is not valid'' \<rparr>) :: (unit, unit, unit) app)
     \<lparr> query = [(''start'', QString ''yesterday''), (''awsRecommendationTarget'', QString ''nowhere'')] \<rparr>)) =
     [\<lparr> status = 400, body = Text ''Target is not valid'' \<rparr>] \<and>
   responses (fst (EmissionsApiMiddleware (app_throwing (ErrorObject \<lparr> constructor = \<lparr> fn_id = 9, name = ''RecommendationsRequestValidationError'' \<rparr>, message = ''Target is not valid'' \<rparr>) :: (unit, unit, unit) app)
     \<lparr> query = [(''start'', QString ''yesterday''), (''awsRecommendationTarget'', QString ''nowhere'')] \<rparr>)) =
     [\<lparr> status = 500, body = Text ''Internal Server Error'' \<rparr>] \<and>
   FootprintApiMiddleware_caught (app_throwing (ErrorObject \<lparr> constructor = \<lparr> fn_id = 10, name = ''RangeError'' \<rparr>, message = ''Invalid time value'' \<rparr>) :: (unit, unit, unit) app)
     \<lparr> query = [(''start'', QString ''yesterday''), (''awsRecommendationTarget'', QString ''nowhere'')] \<rparr> =
     Some (ErrorObject \<lparr> constructor = \<lparr> fn_id = 10, name = ''RangeError'' \<rparr>, message = ''Invalid time value'' \<rparr>) \<and>
   RecommendationsApiMiddleware_caught (app_throwing (ErrorObject \<lparr> constructor = \<lparr> fn_id = 10, name = ''RangeError'' \<rparr>, message = ''Invalid time value'' \<rparr>) :: (unit, unit, unit) app)
     \<lparr> query = [(''start'', QString ''yesterday''), (''awsRecommendationTarget'', QString ''nowhere'')] \<rparr> =
     Some (ErrorObject \<lparr> constructor = \<lparr> fn_id = 10, name = ''RangeError'' \<rparr>, message = ''Invalid time value'' \<rparr>) \<and>
   getEmissionsFactors (app_throwing (ErrorObject \<lparr> constructor = \<lparr> fn_id = 10, name = ''RangeError'' \<rparr>, message = ''Invalid time value'' \<rparr>) :: (unit, unit, unit) app) =
     Inl (ErrorObject \<lparr> constructor = \<lparr> fn_id = 10, name = ''RangeError'' \<rparr>, message = ''Invalid time value'' \<rparr>) \<and>
   responses (fst (FootprintApiMiddleware (app_throwing (ErrorObject \<lparr> constructor = \<lparr> fn_id = 10, name = ''RangeError'' \<rparr>, message = ''Invalid time value'' \<rparr>) :: (unit, unit, unit) app)
     \<lparr> query = [(''start'', QString ''yesterday''), (''awsRecommendationTarget'', QString ''nowhere'')] \<rparr>)) =
     [\<lparr> status = 500, body = Text ''Internal Server Error'' \<rparr>] \<and>
   responses (fst (RecommendationsApiMiddleware (app_throwing (ErrorObject \<lparr> constructor = \<lparr> fn_id = 10, name = ''RangeError'' \<rparr>, message = ''Invalid time value'' \<rparr>) :: (unit, unit, unit) app)
     \<lparr> query = [(''start'', QString ''yesterday''), (''awsRecommendationTarget'', QString ''nowhere'')] \<rparr>)) =
     [\<lparr> status = 500, body = Text ''Internal Server Error'' \<rparr>] \<and>
   responses (fst (EmissionsApiMiddleware (app_throwing (ErrorObject \<lparr> constructor = \<lparr> fn_id = 10, name = ''RangeError'' \<rparr>, message = ''Invalid time value'' \<rparr>) :: (unit, unit, unit) app)
     \<lparr> query = [(''start'', QString ''yesterday''), (''awsRecommendationTarget'', QString ''nowhere'')] \<rparr>)) =
     [\<lparr> status = 500, body = Text ''Internal Server Error'' \<rparr>]"
proof -
  let ?a = "\<lparr> constructor = \<lparr> fn_id = 7, name = ''EstimationRequestValidationError'' \<rparr>, message = ''Start date is not in a valid format'' \<rparr>"
  let ?b = "\<lparr> constructor = \<lparr> fn_id = 8, name = ''PartialDataError'' \<rparr>, message = ''Partial data'' \<rparr>"
  let ?c = "\<lparr> constructor = \<lparr> fn_id = 9, name = ''RecommendationsRequestValidationError'' \<rparr>, message = ''Target is not valid'' \<rparr>"
  let ?d = "\<lparr> constructor = \<lparr> fn_id = 10, name = ''RangeError'' \<rparr>, message = ''Invalid time value'' \<rparr>"
  let ?req = "\<lparr> query = [(''start'', QString ''yesterday''), (''awsRecommendationTarget'', QString ''nowhere'')] \<rparr>"
  have foreign: "constructor ?a \<noteq> EstimationRequestValidationError"
    "constructor ?b \<noteq> PartialDataError"
    "constructor ?c \<noteq> RecommendationsRequestValidationError"
    by (simp_all add: class_defs)
  have fa: "FootprintApiMiddleware_caught (app_throwing (ErrorObject ?a) :: (unit, unit, unit) app) ?req =
      Some (ErrorObject ?a)"
    by (simp add: FootprintApiMiddleware_caught_def FootprintApiMiddleware_rawRequest_def
        FootprintApiMiddleware_try_def footprintRawRequest_def recommendationsRawRequest_def toString_opt_def truthy_def
        app_throwing_def app_returning_def)
  have ra: "RecommendationsApiMiddleware_caught (app_throwing (ErrorObject ?a) :: (unit, unit, unit) app) ?req =
      Some (ErrorObject ?a)"
    by (simp add: RecommendationsApiMiddleware_caught_def RecommendationsApiMiddleware_try_def
        footprintRawRequest_def recommendationsRawRequest_def toString_opt_def truthy_def
        app_throwing_def app_returning_def)
  have ga: "getEmissionsFactors (app_throwing (ErrorObject ?a) :: (unit, unit, unit) app) = Inl (ErrorObject ?a)"
    by (simp add: app_throwing_def)
  have fb: "FootprintApiMiddleware_caught (app_throwing (ErrorObject ?b) :: (unit, unit, unit) app) ?req =
      Some (ErrorObject ?b)"
    by (simp add: FootprintApiMiddleware_caught_def FootprintApiMiddleware_rawRequest_def
        FootprintApiMiddleware_try_def footprintRawRequest_def recommendationsRawRequest_def toString_opt_def truthy_def
        app_throwing_def app_returning_def)
  have rb: "RecommendationsApiMiddleware_caught (app_throwing (ErrorObject ?b) :: (unit, unit, unit) app) ?req =
      Some (ErrorObject ?b)"
    by (simp add: RecommendationsApiMiddleware_caught_def RecommendationsApiMiddleware_try_def
        footprintRawRequest_def recommendationsRawRequest_def toString_opt_def truthy_def
        app_throwing_def app_returning_def)
  have gb: "getEmissionsFactors (app_throwing (ErrorObject ?b) :: (unit, unit, unit) app) = Inl (ErrorObject ?b)"
    by (simp add: app_throwing_def)
  have fc: "FootprintApiMiddleware_caught (app_throwing (ErrorObject ?c) :: (unit, unit, unit) app) ?req =
      Some (ErrorObject ?c)"
    by (simp add: FootprintApiMiddleware_caught_def FootprintApiMiddleware_rawRequest_def
        FootprintApiMiddleware_try_def footprintRawRequest_def recommendationsRawRequest_def toString_opt_def truthy_def
        app_throwing_def app_returning_def)
  have rc: "RecommendationsApiMiddleware_caught (app_throwing (ErrorObject ?c) :: (unit, unit, unit) app) ?req =
      Some (ErrorObject ?c)"
    by (simp add: RecommendationsApiMiddleware_caught_def RecommendationsApiMiddleware_try_def
        footprintRawRequest_def recommendationsRawRequest_def toString_opt_def truthy_def
        app_throwing_def app_returning_def)
  have gc: "getEmissionsFactors (app_throwing (ErrorObject ?c) :: (unit, unit, unit) app) = Inl (ErrorObject ?c)"
    by (simp add: app_throwing_def)
  have fd: "FootprintApiMiddleware_caught (app_throwing (ErrorObject ?d) :: (unit, unit, unit) app) ?req =
      Some (ErrorObject ?d)"
    by (simp add: FootprintApiMiddleware_caught_def FootprintApiMiddleware_rawRequest_def
        FootprintApiMiddleware_try_def footprintRawRequest_def recommendationsRawRequest_def toString_opt_def truthy_def
        app_throwing_def app_returning_def)
  have rd: "RecommendationsApiMiddleware_caught (app_throwing (ErrorObject ?d) :: (unit, unit, unit) app) ?req =
      Some (ErrorObject ?d)"
    by (simp add: RecommendationsApiMiddleware_caught_def RecommendationsApiMiddleware_try_def
        footprintRawRequest_def recommendationsRawRequest_def toString_opt_def truthy_def
        app_throwing_def app_returning_def)
  have gd: "getEmissionsFactors (app_throwing (ErrorObject ?d) :: (unit, unit, unit) app) = Inl (ErrorObject ?d)"
    by (simp add: app_throwing_def)
  from error_kind_by_constructor_name [of "(app_throwing (ErrorObject ?a) :: (unit, unit, unit) app)" ?req ?a]
    error_kind_by_constructor_name [of "(app_throwing (ErrorObject ?b) :: (unit, unit, unit) app)" ?req ?b]
    error_kind_by_constructor_name [of "(app_throwing (ErrorObject ?c) :: (unit, unit, unit) app)" ?req ?c]
    error_kind_by_constructor_name [of "(app_throwing (ErrorObject ?d) :: (unit, unit, unit) app)" ?req ?d]
    foreign fa ra ga fb rb gb fc rc gc fd rd gd
  show ?thesis by (simp add: class_defs)
qed

text \<open>
  Read as a comparison of the constructors themselves, the classification would send an
  error to the generic 500 whenever its constructor is none of the three known classes.
  The handler does not: an error whose constructor is a function of its own that is named
  \<open>EstimationRequestValidationError\<close> is answered with 400 and its message.
\<close>

theorem error_kind_not_by_constructor_identity:
  "constructor \<lparr> constructor = \<lparr> fn_id = 7, name = ''EstimationRequestValidationError'' \<rparr>, message = ''Start date is not in a valid format'' \<rparr> \<noteq>
     EstimationRequestValidationError \<and>
   constructor \<lparr> constructor = \<lparr> fn_id = 7, name = ''EstimationRequestValidationError'' \<rparr>, message = ''Start date is not in a valid format'' \<rparr> \<noteq>
     RecommendationsRequestValidationError \<and>
   constructor \<lparr> constructor = \<lparr> fn_id = 7, name = ''EstimationRequestValidationError'' \<rparr>, message = ''Start date is not in a valid format'' \<rparr> \<noteq>
     PartialDataError \<and>
   responses (fst (FootprintApiMiddleware (app_throwing (ErrorObject \<lparr> constructor = \<lparr> fn_id = 7, name = ''EstimationRequestValidationError'' \<rparr>, message = ''Start date is not in a valid format'' \<rparr>) :: (unit, unit, unit) app)
     \<lparr> query = [(''start'', QString ''yesterday''), (''end'', QString ''2021-02-01'')] \<rparr>)) =
     [\<lparr> status = 400, body = Text ''Start date is not in a valid format'' \<rparr>] \<and>
   responses (fst (FootprintApiMiddleware (app_throwing (ErrorObject \<lparr> constructor = \<lparr> fn_id = 7, name = ''EstimationRequestValidationError'' \<rparr>, message = ''Start date is not in a valid format'' \<rparr>) :: (unit, unit, unit) app)
     \<lparr> query = [(''start'', QString ''yesterday''), (''end'', QString ''2021-02-01'')] \<rparr>)) \<noteq>
     [\<lparr> status = 500, body = Text ''Internal Server Error'' \<rparr>]"
  by (simp add: footprint_defs class_defs
        footprintRawRequest_def recommendationsRawRequest_def toString_opt_def truthy_def
        app_throwing_def app_returning_def)

subsection \<open>The default of groupBy\<close>




subsection \<open>What the validators receive\<close>

text \<open>
  C9. When the calls of \<open>toString\<close> for the scalar parameters return, each handler calls
  its validator once with the raw request built from the query: every scalar field is the
  string that \<open>toString\<close> returned for its parameter (\<open>undefined\<close> for a parameter that is
  not given), every other field is the value of its parameter itself, except that
  \<open>groupBy\<close> of the footprint request is \<open>day\<close> when the parameter is absent or its string
  is empty. Nothing else is checked or changed before the validator is called.
\<close>

theorem raw_requests_reach_the_validators:
  "(toString_opt (map_of (query req) ''start'') = Inr start \<and>
    toString_opt (map_of (query req) ''end'') = Inr end' \<and>
    toString_opt (map_of (query req) ''ignoreCache'') = Inr ignoreCache' \<and>
    toString_opt (map_of (query req) ''groupBy'') = Inr groupBy' \<and>
    toString_opt (map_of (query req) ''limit'') = Inr limit' \<and>
    toString_opt (map_of (query req) ''skip'') = Inr skip' \<longrightarrow>
    footprintValidations (fst (FootprintApiMiddleware pkg req)) =
      [\<lparr> startDate = start,
         endDate = end',
         ignoreCache = ignoreCache',
         groupBy = (if truthy groupBy' then groupBy' else Some ''day''),
         limit = limit',
         skip = skip',
         cloudProviders = map_of (query req) ''cloudProviders'',
         accounts = map_of (query req) ''accounts'',
         services = map_of (query req) ''services'',
         regions = map_of (query req) ''regions'',
         tags = map_of (query req) ''tags'' \<rparr>]) \<and>
   (toString_opt (map_of (query req) ''awsRecommendationTarget'') = Inr target \<longrightarrow>
    recommendationsValidations (fst (RecommendationsApiMiddleware pkg req)) =
      [\<lparr> awsRecommendationTarget = target \<rparr>])"
proof (intro conjI impI)
  assume ok: "toString_opt (map_of (query req) ''start'') = Inr start \<and>
    toString_opt (map_of (query req) ''end'') = Inr end' \<and>
    toString_opt (map_of (query req) ''ignoreCache'') = Inr ignoreCache' \<and>
    toString_opt (map_of (query req) ''groupBy'') = Inr groupBy' \<and>
    toString_opt (map_of (query req) ''limit'') = Inr limit' \<and>
    toString_opt (map_of (query req) ''skip'') = Inr skip'"
  let ?R = "\<lparr> startDate = start, endDate = end', ignoreCache = ignoreCache',
              groupBy = groupBy', limit = limit', skip = skip',
              cloudProviders = map_of (query req) ''cloudProviders'',
              accounts = map_of (query req) ''accounts'',
              services = map_of (query req) ''services'',
              regions = map_of (query req) ''regions'',
              tags = map_of (query req) ''tags'' \<rparr>"
  have built: "footprintRawRequest req = Inr ?R"
    using ok by (simp add: footprintRawRequest_def)
  show "footprintValidations (fst (FootprintApiMiddleware pkg req)) =
      [\<lparr> startDate = start,
         endDate = end',
         ignoreCache = ignoreCache',
         groupBy = (if truthy groupBy' then groupBy' else Some ''day''),
         limit = limit',
         skip = skip',
         cloudProviders = map_of (query req) ''cloudProviders'',
         accounts = map_of (query req) ''accounts'',
         services = map_of (query req) ''services'',
         regions = map_of (query req) ''regions'',
         tags = map_of (query req) ''tags'' \<rparr>]"
    by (auto simp add: footprint_run_when_rawRequest_built [OF built]
        FootprintApiMiddleware_try_catch_def FootprintApiMiddleware_try_def
        FootprintApiMiddleware_catch_def split: sum.splits js_thrown.splits)
next
  assume "toString_opt (map_of (query req) ''awsRecommendationTarget'') = Inr target"
  then show "recommendationsValidations (fst (RecommendationsApiMiddleware pkg req)) =
      [\<lparr> awsRecommendationTarget = target \<rparr>]"
    by (auto simp add: recommendations_defs recommendationsRawRequest_def
        split: sum.splits js_thrown.splits)
qed

theorem raw_requests_reach_the_validators_witness:
  "toString_opt (map_of (query \<lparr> query = [(''start'', QString ''2021-01-01''), (''end'', QString ''2021-02-01''), (''limit'', QArray [QString ''10'', QString ''20'']), (''regions'', QArray [QString ''us-east-1'']), (''awsRecommendationTarget'', QString ''SAME_INSTANCE_FAMILY'')] \<rparr>) ''start'') =
     Inr (Some ''2021-01-01'') \<and>
   toString_opt (map_of (query \<lparr> query = [(''start'', QString ''2021-01-01''), (''end'', QString ''2021-02-01''), (''limit'', QArray [QString ''10'', QString ''20'']), (''regions'', QArray [QString ''us-east-1'']), (''awsRecommendationTarget'', QString ''SAME_INSTANCE_FAMILY'')] \<rparr>) ''end'') =
     Inr (Some ''2021-02-01'') \<and>
   toString_opt (map_of (query \<lparr> query = [(''start'', QString ''2021-01-01''), (''end'', QString ''2021-02-01''), (''limit'', QArray [QString ''10'', QString ''20'']), (''regions'', QArray [QString ''us-east-1'']), (''awsRecommendationTarget'', QString ''SAME_INSTANCE_FAMILY'')] \<rparr>) ''ignoreCache'') =
     Inr (None) \<and>
   toString_opt (map_of (query \<lparr> query = [(''start'', QString ''2021-01-01''), (''end'', QString ''2021-02-01''), (''limit'', QArray [QString ''10'', QString ''20'']), (''regions'', QArray [QString ''us-east-1'']), (''awsRecommendationTarget'', QString ''SAME_INSTANCE_FAMILY'')] \<rparr>) ''groupBy'') =
     Inr (None) \<and>
   toString_opt (map_of (query \<lparr> query = [(''start'', QString ''2021-01-01''), (''end'', QString ''2021-02-01''), (''limit'', QArray [QString ''10'', QString ''20'']), (''regions'', QArray [QString ''us-east-1'']), (''awsRecommendationTarget'', QString ''SAME_INSTANCE_FAMILY'')] \<rparr>) ''limit'') =
     Inr (Some ''10,20'') \<and>
   toString_opt (map_of (query \<lparr> query = [(''start'', QString ''2021-01-01''), (''end'', QString ''2021-02-01''), (''limit'', QArray [QString ''10'', QString ''20'']), (''regions'', QArray [QString ''us-east-1'']), (''awsRecommendationTarget'', QString ''SAME_INSTANCE_FAMILY'')] \<rparr>) ''skip'') =
     Inr (None) \<and>
   toString_opt (map_of (query \<lparr> query = [(''start'', QString ''2021-01-01''), (''end'', QString ''2021-02-01''), (''limit'', QArray [QString ''10'', QString ''20'']), (''regions'', QArray [QString ''us-east-1'']), (''awsRecommendationTarget'', QString ''SAME_INSTANCE_FAMILY'')] \<rparr>) ''awsRecommendationTarget'') =
     Inr (Some ''SAME_INSTANCE_FAMILY'') \<and>
   footprintValidations (fst (FootprintApiMiddleware (app_returning (42 :: nat))
     \<lparr> query = [(''start'', QString ''2021-01-01''), (''end'', QString ''2021-02-01''), (''limit'', QArray [QString ''10'', QString ''20'']), (''regions'', QArray [QString ''us-east-1'']), (''awsRecommendationTarget'', QString ''SAME_INSTANCE_FAMILY'')] \<rparr>)) =
     [\<lparr> startDate = Some ''2021-01-01'', endDate = Some ''2021-02-01'',
        ignoreCache = None, groupBy = Some ''day'', limit = Some ''10,20'', skip = None,
        cloudProviders = None, accounts = None, services = None,
        regions = Some (QArray [QString ''us-east-1'']), tags = None \<rparr>] \<and>
   recommendationsValidations (fst (RecommendationsApiMiddleware (app_returning (42 :: nat))
     \<lparr> query = [(''start'', QString ''2021-01-01''), (''end'', QString ''2021-02-01''), (''limit'', QArray [QString ''10'', QString ''20'']), (''regions'', QArray [QString ''us-east-1'']), (''awsRecommendationTarget'', QString ''SAME_INSTANCE_FAMILY'')] \<rparr>)) =
     [\<lparr> awsRecommendationTarget = Some ''SAME_INSTANCE_FAMILY'' \<rparr>]"
proof -
  let ?req = "\<lparr> query = [(''start'', QString ''2021-01-01''), (''end'', QString ''2021-02-01''), (''limit'', QArray [QString ''10'', QString ''20'']), (''regions'', QArray [QString ''us-east-1'']), (''awsRecommendationTarget'', QString ''SAME_INSTANCE_FAMILY'')] \<rparr>"
  have ok: "toString_opt (map_of (query ?req) ''start'') = Inr (Some ''2021-01-01'') \<and>
    toString_opt (map_of (query ?req) ''end'') = Inr (Some ''2021-02-01'') \<and>
    toString_opt (map_of (query ?req) ''ignoreCache'') = Inr None \<and>
    toString_opt (map_of (query ?req) ''groupBy'') = Inr None \<and>
    toString_opt (map_of (query ?req) ''limit'') = Inr (Some ''10,20'') \<and>
    toString_opt (map_of (query ?req) ''skip'') = Inr None"
    by (simp add: toString_opt_def)
  have target: "toString_opt (map_of (query ?req) ''awsRecommendationTarget'') =
      Inr (Some ''SAME_INSTANCE_FAMILY'')"
    by (simp add: toString_opt_def)
  from raw_requests_reach_the_validators
         [of ?req "Some ''2021-01-01''" "Some ''2021-02-01''" None None "Some ''10,20''" None
            "app_returning (42 :: nat)" "Some ''SAME_INSTANCE_FAMILY''"]
    ok target
  show ?thesis by (simp add: truthy_def)
qed

text \<open>
  The footprint request is therefore not passed on verbatim in every field: for a query
  without \<open>groupBy\<close> the validator receives \<open>day\<close>, while the query parameter is undefined.
\<close>

theorem footprint_groupBy_not_verbatim:
  "map groupBy (footprintValidations (fst (FootprintApiMiddleware (app_returning (42 :: nat))
     \<lparr> query = [(''start'', QString ''2021-01-01''), (''end'', QString ''2021-02-01'')] \<rparr>))) =
     [Some ''day''] \<and>
   toString_opt
     (map_of (query \<lparr> query = [(''start'', QString ''2021-01-01''), (''end'', QString ''2021-02-01'')] \<rparr>) ''groupBy'') =
     Inr None"
  by (simp add: footprint_defs footprintRawRequest_def recommendationsRawRequest_def toString_opt_def truthy_def
        app_throwing_def app_returning_def)

subsection \<open>The health check\<close>

text \<open>
  C7. A GET request for \<open>/healthz\<close> is answered with status 200 and the body \<open>OK\<close>,
  whatever its query, the configuration the router was created with and the behaviour of
  the application package.
\<close>

theorem healthz_always_ok:
  "handleGet (createRouter package config) ''/healthz'' req =
     Some ([Respond \<lparr> status = 200, body = Text ''OK'' \<rparr>], None)"
  by (simp add: handleGet_def createRouter_def)

end
